theory Spec2Isabelle
  imports Complex_Main "HOL-Library.AList" "HOL-Library.Char_ord" "HOL-Library.List_Lexorder"
begin

section \<open>Conventions\<close>

text \<open>
  The development embeds the extraction pipeline of the repository
  (\<^verbatim>\<open>app/core/extractors/*.py\<close>, \<^verbatim>\<open>app/core/document_processor.py\<close>,
  \<^verbatim>\<open>app/models/financial.py\<close>).

  \<^item> A Python \<^verbatim>\<open>str\<close> is a \<^typ>\<open>string\<close>. Texts are taken to be ASCII; the three
    non-ASCII literals of the currency patterns are written as their UTF-8 bytes.
  \<^item> A Python \<^verbatim>\<open>float\<close> is the exact rational its decimal literal denotes
    (\<open>Fin\<close>), or one of \<open>inf\<close>, \<open>-inf\<close>, \<open>nan\<close>. Rounding to the nearest double and
    overflow of huge literals are not modelled.
  \<^item> A Python \<^verbatim>\<open>dict\<close> is an association list in insertion order; assignment to a
    key is \<open>AList.update\<close> (an existing key keeps its place, a new one is appended).
  \<^item> An exception is a value \<open>Inl e\<close> of a sum type.
\<close>

datatype error = ValueError | KeyError | IndexError

section \<open>Python string operations\<close>

definition isspace :: "char \<Rightarrow> bool" where
  \<comment> \<open>\<^verbatim>\<open>str.isspace\<close> on ASCII: TAB, LF, VT, FF, CR, FS, GS, RS, US, space\<close>
  "isspace c = (of_char c \<in> {9, 10, 11, 12, 13, 28, 29, 30, 31, 32 :: nat})"

definition isdigit :: "char \<Rightarrow> bool" where
  "isdigit c = (CHR ''0'' \<le> c \<and> c \<le> CHR ''9'')"

definition lower_char :: "char \<Rightarrow> char" where
  "lower_char c =
     (case map_of (zip ''ABCDEFGHIJKLMNOPQRSTUVWXYZ'' ''abcdefghijklmnopqrstuvwxyz'') c of
        Some d \<Rightarrow> d
      | None \<Rightarrow> c)"

definition upper_char :: "char \<Rightarrow> char" where
  "upper_char c =
     (case map_of (zip ''abcdefghijklmnopqrstuvwxyz'' ''ABCDEFGHIJKLMNOPQRSTUVWXYZ'') c of
        Some d \<Rightarrow> d
      | None \<Rightarrow> c)"

definition lower :: "string \<Rightarrow> string" where
  "lower s = map lower_char s"

definition strip :: "string \<Rightarrow> string" where
  "strip s = rev (dropWhile isspace (rev (dropWhile isspace s)))"

definition startswith :: "string \<Rightarrow> string \<Rightarrow> bool" where
  "startswith s p = (take (length p) s = p)"

definition endswith :: "string \<Rightarrow> string \<Rightarrow> bool" where
  "endswith s p = (length p \<le> length s \<and> drop (length s - length p) s = p)"

fun contains :: "string \<Rightarrow> string \<Rightarrow> bool" where
  \<comment> \<open>\<^verbatim>\<open>sub in s\<close>: \<open>contains sub s\<close>\<close>
  "contains sub [] = (sub = [])"
| "contains sub (c # cs) = (startswith (c # cs) sub \<or> contains sub cs)"

definition replace_char :: "char \<Rightarrow> string \<Rightarrow> string \<Rightarrow> string" where
  \<comment> \<open>\<^verbatim>\<open>s.replace(old, new)\<close> for a one-character \<open>old\<close>\<close>
  "replace_char old new s = concat (map (\<lambda>c. if c = old then new else [c]) s)"

fun str_index :: "char \<Rightarrow> string \<Rightarrow> nat \<Rightarrow> error + nat" where
  \<comment> \<open>\<^verbatim>\<open>s.index(c)\<close>: position of the first occurrence, ValueError if there is none\<close>
  "str_index c [] i = Inl ValueError"
| "str_index c (d # ds) i = (if c = d then Inr i else str_index c ds (Suc i))"

fun split_on :: "char \<Rightarrow> string \<Rightarrow> string list" where
  \<comment> \<open>\<^verbatim>\<open>s.split(c)\<close>: always at least one piece\<close>
  "split_on c [] = [[]]"
| "split_on c (d # ds) =
     (if d = c then [] # split_on c ds
      else (case split_on c ds of p # ps \<Rightarrow> (d # p) # ps | [] \<Rightarrow> [[d]]))"

definition split_once :: "char \<Rightarrow> string \<Rightarrow> string list" where
  \<comment> \<open>\<^verbatim>\<open>s.split(c, 1)\<close>\<close>
  "split_once c s =
     (if c \<in> set s then [takeWhile (\<lambda>d. d \<noteq> c) s, tl (dropWhile (\<lambda>d. d \<noteq> c) s)] else [s])"

section \<open>The builtin float()\<close>

datatype pyfloat = Fin rat | PosInf | NegInf | NaN

definition float_space :: "char \<Rightarrow> bool" where
  \<comment> \<open>the whitespace \<^verbatim>\<open>float()\<close> strips from an ASCII string\<close>
  "float_space c = (of_char c \<in> {9, 10, 11, 12, 13, 32 :: nat})"

fun underscores_ok :: "char \<Rightarrow> string \<Rightarrow> bool" where
  \<comment> \<open>an underscore is allowed only between two digits; the first argument is the
     previous character\<close>
  "underscores_ok prev [] = (prev \<noteq> CHR ''_'')"
| "underscores_ok prev (c # cs) =
     ((if c = CHR ''_'' then isdigit prev else (prev = CHR ''_'' \<longrightarrow> isdigit c))
      \<and> underscores_ok c cs)"

definition digit_val :: "char \<Rightarrow> nat" where
  "digit_val c = of_char c - of_char CHR ''0''"

definition nat_of_digits :: "string \<Rightarrow> nat" where
  "nat_of_digits ds = foldl (\<lambda>n c. 10 * n + digit_val c) 0 ds"

definition parse_exponent :: "string \<Rightarrow> (int \<times> string) option" where
  \<comment> \<open>\<^verbatim>\<open>("e" | "E") [sign] digit+\<close>; \<open>None\<close> when no complete exponent starts here\<close>
  "parse_exponent s =
     (case s of
        [] \<Rightarrow> None
      | c # r \<Rightarrow>
          if c = CHR ''e'' \<or> c = CHR ''E'' then
            (let (neg, r1) = (case r of
                                [] \<Rightarrow> (False, r)
                              | d # r' \<Rightarrow> if d = CHR ''-'' then (True, r')
                                          else if d = CHR ''+'' then (False, r') else (False, r));
                 ds = takeWhile isdigit r1
             in if ds = [] then None
                else Some ((if neg then - int (nat_of_digits ds) else int (nat_of_digits ds)),
                           dropWhile isdigit r1))
          else None)"

definition parse_decimal :: "string \<Rightarrow> error + rat" where
  \<comment> \<open>\<^verbatim>\<open>[digits] "." digits | digits ["."]\<close> with an optional exponent, nothing after it\<close>
  "parse_decimal s =
     (let ip = takeWhile isdigit s;
          r1 = dropWhile isdigit s;
          (fp, r2) = (case r1 of
                        [] \<Rightarrow> ([], r1)
                      | c # r \<Rightarrow> if c = CHR ''.'' then (takeWhile isdigit r, dropWhile isdigit r)
                                 else ([], r1))
      in if ip = [] \<and> fp = [] then Inl ValueError
         else
           (let (ex, r3) = (case parse_exponent r2 of None \<Rightarrow> (0, r2) | Some (e, r) \<Rightarrow> (e, r));
                m = of_nat (nat_of_digits (ip @ fp)) :: rat;
                e = ex - int (length fp)
            in if r3 \<noteq> [] then Inl ValueError
               else Inr (if 0 \<le> e then m * 10 ^ nat e else m / 10 ^ nat (- e))))"

definition parse_unsigned :: "string \<Rightarrow> bool \<Rightarrow> error + pyfloat" where
  \<comment> \<open>what follows the optional sign; the flag says the sign was a minus\<close>
  "parse_unsigned s neg =
     (if lower s = ''inf'' \<or> lower s = ''infinity'' then Inr (if neg then NegInf else PosInf)
      else if lower s = ''nan'' then Inr NaN
      else (case parse_decimal s of
              Inl e \<Rightarrow> Inl e
            | Inr q \<Rightarrow> Inr (Fin (if neg then - q else q))))"

definition float :: "string \<Rightarrow> error + pyfloat" where
  \<comment> \<open>\<^verbatim>\<open>float(s)\<close> for a \<^verbatim>\<open>str\<close> argument: a float, or ValueError\<close>
  "float s0 =
     (let s = rev (dropWhile float_space (rev (dropWhile float_space s0)))
      in if \<not> underscores_ok (CHR 0x00) s then Inl ValueError
         else
           (let t = filter (\<lambda>c. c \<noteq> CHR ''_'') s
            in case t of
                 [] \<Rightarrow> Inl ValueError
               | c # r \<Rightarrow> if c = CHR ''-'' then parse_unsigned r True
                          else if c = CHR ''+'' then parse_unsigned r False
                          else parse_unsigned t False))"

section \<open>Number parsers\<close>

text \<open>
  \<^verbatim>\<open>PatternExtractor._parse_number\<close>. The body of the \<^verbatim>\<open>try\<close> block is
  \<open>parse_number_try\<close>; the handler catches ValueError and nothing else.
\<close>

definition parse_number_try :: "string \<Rightarrow> error + pyfloat" where
  "parse_number_try number_str0 =
     (let number_str1 = replace_char CHR '' '' [] (replace_char CHR '','' [] number_str0);
          number_str2 = (if startswith number_str1 ''('' \<and> endswith number_str1 '')''
                         then CHR ''-'' # butlast (tl number_str1) else number_str1)
      in if CHR ''.'' \<in> set number_str2 \<and> CHR '','' \<in> set number_str2 then
           (case str_index CHR ''.'' number_str2 0 of
              Inl e \<Rightarrow> Inl e
            | Inr i \<Rightarrow>
               (case str_index CHR '','' number_str2 0 of
                  Inl e \<Rightarrow> Inl e
                | Inr j \<Rightarrow>
                    if i < j
                    then float (replace_char CHR '','' ''.'' (replace_char CHR ''.'' [] number_str2))
                    else float number_str2))
         else float number_str2)"

definition parse_number :: "string \<Rightarrow> error + pyfloat option" where
  "parse_number number_str =
     (case parse_number_try number_str of
        Inr v \<Rightarrow> Inr (Some v)
      | Inl ValueError \<Rightarrow> Inr None
      | Inl e \<Rightarrow> Inl e)"

text \<open>\<^verbatim>\<open>FreeExtractor._parse_number\<close>: no handler, the ValueError of float() propagates.\<close>

definition free_parse_number :: "string \<Rightarrow> error + pyfloat" where
  "free_parse_number num_str = float (strip (replace_char CHR '','' [] num_str))"

section \<open>Regular expressions\<close>

text \<open>
  The patterns of the source are terms of \<open>regex\<close>; \<open>rmatch\<close> is a backtracking
  matcher that returns every way a pattern matches at a position, in the order Python's
  \<^verbatim>\<open>re\<close> tries them (an alternation left to right, a greedy operator the longer
  match first, a lazy one the shorter first). The first element is the match \<^verbatim>\<open>re\<close>
  reports. A bounded repetition \<^verbatim>\<open>r{m,n}\<close> is written out with \<open>Seq\<close> and \<open>Opt\<close>.
\<close>

datatype cclass = CChar char | CRange char char | CDigit | CSpace

fun cclass_match :: "cclass \<Rightarrow> char \<Rightarrow> bool" where
  "cclass_match (CChar d) c = (c = d)"
| "cclass_match (CRange a b) c = (a \<le> c \<and> c \<le> b)"
| "cclass_match CDigit c = isdigit c"
| "cclass_match CSpace c = isspace c"

datatype regex =
    Lit char
  | CSet "cclass list"
  | Dot
  | Bol
  | Eol
  | Eps
  | Seq regex regex
  | Alt regex regex
  | Opt regex
  | Star regex
  | LazyStar regex
  | Group nat regex

text \<open>A matcher state: position in the subject, the text from there on, the groups.\<close>

type_synonym mstate = "nat \<times> string \<times> (nat \<times> string) list"

definition progress :: "mstate \<Rightarrow> mstate \<Rightarrow> bool" where
  "progress st st' = (length (fst (snd st')) < length (fst (snd st)))"

primrec iter_greedy :: "nat \<Rightarrow> (mstate \<Rightarrow> mstate list) \<Rightarrow> mstate \<Rightarrow> mstate list" where
  "iter_greedy 0 f st = [st]"
| "iter_greedy (Suc n) f st =
     concat (map (iter_greedy n f) (filter (progress st) (f st))) @ [st]"

primrec iter_lazy :: "nat \<Rightarrow> (mstate \<Rightarrow> mstate list) \<Rightarrow> mstate \<Rightarrow> mstate list" where
  "iter_lazy 0 f st = [st]"
| "iter_lazy (Suc n) f st =
     st # concat (map (iter_lazy n f) (filter (progress st) (f st)))"

definition step_char :: "(char \<Rightarrow> bool) \<Rightarrow> mstate \<Rightarrow> mstate list" where
  "step_char P st =
     (case st of (p, s, g) \<Rightarrow>
        (case s of [] \<Rightarrow> [] | c # r \<Rightarrow> if P c then [(Suc p, r, g)] else []))"

primrec rmatch :: "bool \<Rightarrow> regex \<Rightarrow> mstate \<Rightarrow> mstate list" where
  "rmatch ic (Lit d) st =
     step_char (\<lambda>c. if ic then lower_char c = lower_char d else c = d) st"
| "rmatch ic (CSet cs) st =
     step_char (\<lambda>c. \<exists>k \<in> set cs. cclass_match k c \<or>
                  (ic \<and> (cclass_match k (lower_char c) \<or> cclass_match k (upper_char c)))) st"
| "rmatch ic Dot st = step_char (\<lambda>c. c \<noteq> CHR 0x0A) st"
| "rmatch ic Bol st = (if fst st = 0 then [st] else [])"
| "rmatch ic Eol st = (if fst (snd st) = [] \<or> fst (snd st) = [CHR 0x0A] then [st] else [])"
| "rmatch ic Eps st = [st]"
| "rmatch ic (Seq a b) st = concat (map (rmatch ic b) (rmatch ic a st))"
| "rmatch ic (Alt a b) st = rmatch ic a st @ rmatch ic b st"
| "rmatch ic (Opt a) st = rmatch ic a st @ [st]"
| "rmatch ic (Star a) st = iter_greedy (length (fst (snd st))) (rmatch ic a) st"
| "rmatch ic (LazyStar a) st = iter_lazy (length (fst (snd st))) (rmatch ic a) st"
| "rmatch ic (Group n a) st =
     map (\<lambda>st'. (fst st', fst (snd st'),
                  AList.update n (take (fst st' - fst st) (fst (snd st))) (snd (snd st'))))
         (rmatch ic a st)"

text \<open>A match object: start, end, groups. \<open>group\<close> of an unset group is the empty string.\<close>

type_synonym rmatch_obj = "nat \<times> nat \<times> (nat \<times> string) list"

definition group :: "rmatch_obj \<Rightarrow> nat \<Rightarrow> string" where
  "group m n = (case map_of (snd (snd m)) n of Some s \<Rightarrow> s | None \<Rightarrow> [])"

fun search_from :: "bool \<Rightarrow> regex \<Rightarrow> nat \<Rightarrow> string \<Rightarrow> rmatch_obj option" where
  "search_from ic r p [] =
     (case rmatch ic r (p, [], []) of st' # _ \<Rightarrow> Some (p, fst st', snd (snd st')) | [] \<Rightarrow> None)"
| "search_from ic r p (c # cs) =
     (case rmatch ic r (p, c # cs, []) of
        st' # _ \<Rightarrow> Some (p, fst st', snd (snd st'))
      | [] \<Rightarrow> search_from ic r (Suc p) cs)"

definition re_search :: "bool \<Rightarrow> regex \<Rightarrow> string \<Rightarrow> rmatch_obj option" where
  \<comment> \<open>\<^verbatim>\<open>re.search(r, s)\<close>; the flag is \<^verbatim>\<open>re.IGNORECASE\<close>\<close>
  "re_search ic r s = search_from ic r 0 s"

text \<open>
  The scan behind \<^verbatim>\<open>re.findall\<close>: after a match that consumed text the scan goes on
  where it ended; after an empty match it asks for a non-empty match at the same place
  (\<open>must\<close>) before it moves on by one character.
\<close>

function finditer :: "bool \<Rightarrow> regex \<Rightarrow> bool \<Rightarrow> nat \<Rightarrow> string \<Rightarrow> rmatch_obj list" where
  "finditer ic r must p s =
     (case filter (\<lambda>st'. must \<longrightarrow> length (fst (snd st')) < length s) (rmatch ic r (p, s, [])) of
        st' # _ \<Rightarrow>
          (p, fst st', snd (snd st')) #
          (if length (fst (snd st')) < length s
           then finditer ic r False (fst st') (fst (snd st'))
           else finditer ic r True p s)
      | [] \<Rightarrow> (case s of [] \<Rightarrow> [] | _ # t \<Rightarrow> finditer ic r False (Suc p) t))"
  by pat_completeness auto
termination
proof (relation "measures [\<lambda>(ic, r, must, p, s). length s, \<lambda>(ic, r, must, p, s). if must then 0 else 1]")
  show "wf (measures [\<lambda>(ic, r, must, p, s). length s, \<lambda>(ic, r, must, p, s). if must then 0 else 1])"
    by simp
next
  fix ic :: bool and r :: regex and must :: bool and p :: nat and s :: string
    and x21 :: mstate and x22 :: "mstate list"
  assume "filter (\<lambda>st'. must \<longrightarrow> length (fst (snd st')) < length s) (rmatch ic r (p, s, [])) = x21 # x22"
    and "length (fst (snd x21)) < length s"
  then show "((ic, r, False, fst x21, fst (snd x21)), (ic, r, must, p, s))
      \<in> measures [\<lambda>(ic, r, must, p, s). length s, \<lambda>(ic, r, must, p, s). if must then 0 else 1]"
    by simp
next
  fix ic :: bool and r :: regex and must :: bool and p :: nat and s :: string
    and x21 :: mstate and x22 :: "mstate list"
  assume f: "filter (\<lambda>st'. must \<longrightarrow> length (fst (snd st')) < length s) (rmatch ic r (p, s, [])) = x21 # x22"
    and n: "\<not> length (fst (snd x21)) < length s"
  from f have "x21 \<in> set (filter (\<lambda>st'. must \<longrightarrow> length (fst (snd st')) < length s) (rmatch ic r (p, s, [])))"
    by simp
  with n have "\<not> must" by auto
  then show "((ic, r, True, p, s), (ic, r, must, p, s))
      \<in> measures [\<lambda>(ic, r, must, p, s). length s, \<lambda>(ic, r, must, p, s). if must then 0 else 1]"
    by simp
next
  fix ic :: bool and r :: regex and must :: bool and p :: nat and s :: string
    and x21 :: char and x22 :: string
  assume "s = x21 # x22"
  then show "((ic, r, False, Suc p, x22), (ic, r, must, p, s))
      \<in> measures [\<lambda>(ic, r, must, p, s). length s, \<lambda>(ic, r, must, p, s). if must then 0 else 1]"
    by simp
qed

declare finditer.simps [simp del]

definition findall_group1 :: "regex \<Rightarrow> string \<Rightarrow> string list" where
  \<comment> \<open>\<^verbatim>\<open>re.findall\<close> for a pattern with one group: the group's text of every match\<close>
  "findall_group1 r s = map (\<lambda>m. group m 1) (finditer False r False 0 s)"

definition findall_whole :: "regex \<Rightarrow> string \<Rightarrow> string list" where
  \<comment> \<open>\<^verbatim>\<open>re.findall\<close> for a pattern without groups: the text of every match\<close>
  "findall_whole r s = map (\<lambda>m. take (fst (snd m) - fst m) (drop (fst m) s)) (finditer False r False 0 s)"

text \<open>Pattern building blocks.\<close>

definition lits :: "string \<Rightarrow> regex" where
  "lits s = foldr (\<lambda>c r. Seq (Lit c) r) s Eps"

definition seqs :: "regex list \<Rightarrow> regex" where
  "seqs rs = foldr Seq rs Eps"

definition alts :: "regex list \<Rightarrow> regex" where
  \<comment> \<open>\<^verbatim>\<open>a|b|c\<close>, tried left to right\<close>
  "alts rs = (case rs of [] \<Rightarrow> Eps | _ \<Rightarrow> foldr Alt (butlast rs) (last rs))"

definition digit :: regex where
  "digit = CSet [CDigit]"

definition space :: regex where
  "space = CSet [CSpace]"

definition plus :: "regex \<Rightarrow> regex" where
  \<comment> \<open>\<^verbatim>\<open>r+\<close>\<close>
  "plus r = Seq r (Star r)"

definition lazy_plus :: "regex \<Rightarrow> regex" where
  \<comment> \<open>\<^verbatim>\<open>r+?\<close>\<close>
  "lazy_plus r = Seq r (LazyStar r)"

definition digits3 :: regex where
  \<comment> \<open>\<^verbatim>\<open>\d{3}\<close>\<close>
  "digits3 = Seq digit (Seq digit digit)"

definition digits1_3 :: regex where
  \<comment> \<open>\<^verbatim>\<open>\d{1,3}\<close>\<close>
  "digits1_3 = Seq digit (Opt (Seq digit (Opt digit)))"

section \<open>Data model\<close>

text \<open>\<^verbatim>\<open>app/models/financial.py\<close>. \<open>item_value\<close> is the \<^verbatim>\<open>.value\<close> of an item.\<close>

datatype Currency = USD | EUR | GBP | JPY | CNY | Currency_UNKNOWN

datatype Unit = THOUSANDS | MILLIONS | BILLIONS | ACTUAL | Unit_UNKNOWN

datatype ConfidenceLevel = HIGH | MEDIUM | LOW | MISSING

datatype IncomeStatementItem =
    REVENUE | COST_OF_REVENUE | GROSS_PROFIT | OPERATING_EXPENSES | RND | SGNA
  | OPERATING_INCOME | INTEREST_EXPENSE | INCOME_TAX | NET_INCOME | EBITDA

definition all_items :: "IncomeStatementItem list" where
  "all_items = [REVENUE, COST_OF_REVENUE, GROSS_PROFIT, OPERATING_EXPENSES, RND, SGNA,
                OPERATING_INCOME, INTEREST_EXPENSE, INCOME_TAX, NET_INCOME, EBITDA]"

fun item_value :: "IncomeStatementItem \<Rightarrow> string" where
  "item_value REVENUE = ''Revenue''"
| "item_value COST_OF_REVENUE = ''Cost of Revenue''"
| "item_value GROSS_PROFIT = ''Gross Profit''"
| "item_value OPERATING_EXPENSES = ''Operating Expenses''"
| "item_value RND = ''Research & Development''"
| "item_value SGNA = ''Selling, General & Administrative''"
| "item_value OPERATING_INCOME = ''Operating Income''"
| "item_value INTEREST_EXPENSE = ''Interest Expense''"
| "item_value INCOME_TAX = ''Income Tax''"
| "item_value NET_INCOME = ''Net Income''"
| "item_value EBITDA = ''EBITDA''"

record ExtractedValue =
  val :: "pyfloat option"
  original_text :: "string option"
  confidence :: ConfidenceLevel
  notes' :: "string option"

type_synonym period_data = "(IncomeStatementItem \<times> ExtractedValue) list"
type_synonym data_dict = "(string \<times> period_data) list"
type_synonym raw_dict = "(string \<times> (string \<times> string) list) list"

record FinancialExtractionResult =
  document_name :: string
  extraction_date :: string
  currency :: Currency
  unit :: Unit
  confidence_overall :: ConfidenceLevel
  data :: data_dict
  warnings :: "string list"
  missing_items :: "IncomeStatementItem list"
  raw_extracts :: raw_dict

definition dict_of :: "('k \<times> 'v) list \<Rightarrow> ('k \<times> 'v) list" where
  \<comment> \<open>a dict literal or comprehension: the entries assigned in turn\<close>
  "dict_of kvs = foldl (\<lambda>d kv. AList.update (fst kv) (snd kv) d) [] kvs"

definition set_item :: "'k \<Rightarrow> 'i \<Rightarrow> 'v \<Rightarrow> ('k \<times> ('i \<times> 'v) list) list \<Rightarrow> ('k \<times> ('i \<times> 'v) list) list" where
  \<comment> \<open>\<^verbatim>\<open>d[k][i] = v\<close>, at the places of the source where \<open>k\<close> is a key of \<open>d\<close>: \<open>d\<close> was
     built with every key that is later used\<close>
  "set_item k i v d = AList.map_entry k (AList.update i v) d"

definition get_or_empty :: "('k \<times> 'v list) list \<Rightarrow> 'k \<Rightarrow> 'v list" where
  \<comment> \<open>\<^verbatim>\<open>d.get(k, {})\<close>\<close>
  "get_or_empty d k = (case map_of d k of Some x \<Rightarrow> x | None \<Rightarrow> [])"

definition found_items :: "data_dict \<Rightarrow> IncomeStatementItem set" where
  \<comment> \<open>the loop \<^verbatim>\<open>for year_data in data.values(): found_items.update(year_data.keys())\<close>\<close>
  "found_items d = foldl (\<lambda>acc year_data. acc \<union> set (map fst year_data)) {} (map snd d)"

definition compute_missing :: "data_dict \<Rightarrow> IncomeStatementItem list" where
  \<comment> \<open>\<^verbatim>\<open>list(all_items - found_items)\<close>. Python leaves the order of the list to the
     iteration order of a set; here it is the declaration order.\<close>
  "compute_missing d = filter (\<lambda>i. i \<notin> found_items d) all_items"

definition any_values :: "('k \<times> 'v list) list \<Rightarrow> bool" where
  \<comment> \<open>\<^verbatim>\<open>any(d.values())\<close>: some inner dict is not empty\<close>
  "any_values d = (\<exists>yd \<in> set (map snd d). yd \<noteq> [])"

section \<open>The normalizer (\<^verbatim>\<open>BaseExtractor._normalize_line_item\<close>)\<close>

definition mappings :: "(string \<times> IncomeStatementItem) list" where
  "mappings = dict_of [
     (''revenue'', REVENUE),
     (''sales'', REVENUE),
     (''total revenue'', REVENUE),
     (''operating revenue'', REVENUE),
     (''cost of revenue'', COST_OF_REVENUE),
     (''cost of sales'', COST_OF_REVENUE),
     (''cost of goods sold'', COST_OF_REVENUE),
     (''cogs'', COST_OF_REVENUE),
     (''gross profit'', GROSS_PROFIT),
     (''gross margin'', GROSS_PROFIT),
     (''operating expenses'', OPERATING_EXPENSES),
     (''opex'', OPERATING_EXPENSES),
     (''total operating expenses'', OPERATING_EXPENSES),
     (''expenses'', OPERATING_EXPENSES),
     (''research and development'', RND),
     (''r&d'', RND),
     (''research & development'', RND),
     (''research and development expenses'', RND),
     (''selling general and administrative'', SGNA),
     (''sg&a'', SGNA),
     (''selling, general & administrative'', SGNA),
     (''selling, general and administrative'', SGNA),
     (''selling general and admin'', SGNA),
     (''operating income'', OPERATING_INCOME),
     (''operating profit'', OPERATING_INCOME),
     (''income from operations'', OPERATING_INCOME),
     (''interest expense'', INTEREST_EXPENSE),
     (''interest'', INTEREST_EXPENSE),
     (''finance costs'', INTEREST_EXPENSE),
     (''income tax'', INCOME_TAX),
     (''tax expense'', INCOME_TAX),
     (''provision for income taxes'', INCOME_TAX),
     (''income tax expense'', INCOME_TAX),
     (''net income'', NET_INCOME),
     (''net profit'', NET_INCOME),
     (''net earnings'', NET_INCOME),
     (''bottom line'', NET_INCOME),
     (''ebitda'', EBITDA),
     (''earnings before interest'', EBITDA),
     (''ebitda'', EBITDA)]"

fun first_key_in :: "(string \<times> IncomeStatementItem) list \<Rightarrow> string \<Rightarrow> IncomeStatementItem option" where
  \<comment> \<open>the loop \<^verbatim>\<open>for key, value in mappings.items(): if key in text_lower: return value\<close>\<close>
  "first_key_in [] text_lower = None"
| "first_key_in ((key, value) # rest) text_lower =
     (if contains key text_lower then Some value else first_key_in rest text_lower)"

definition normalize_line_item :: "string \<Rightarrow> IncomeStatementItem option" where
  "normalize_line_item text =
     (let text_lower = strip (lower text)
      in case first_key_in mappings text_lower of
           Some value \<Rightarrow> Some value
         | None \<Rightarrow>
             if contains ''r&d'' text_lower \<or> contains ''research'' text_lower then Some RND
             else if contains ''sg&a'' text_lower \<or> contains ''selling'' text_lower then Some SGNA
             else None)"

section \<open>The default engine (\<^verbatim>\<open>FreeExtractor\<close>)\<close>

definition free_number_pattern :: regex where
  \<comment> \<open>\<^verbatim>\<open>\$?(\d{1,3}(?:,\d{3})*(?:\.\d{1,2})?)\<close>\<close>
  "free_number_pattern =
     seqs [Opt (Lit CHR ''$''),
           Group 1 (seqs [digits1_3,
                          Star (seqs [Lit CHR '','', digits3]),
                          Opt (seqs [Lit CHR ''.'', digit, Opt digit])])]"

definition item_mapping :: "(string \<times> IncomeStatementItem) list" where
  "item_mapping = dict_of [
     (''Revenue'', REVENUE),
     (''Cost of revenue'', COST_OF_REVENUE),
     (''Gross profit'', GROSS_PROFIT),
     (''Research and development'', RND),
     (''Selling, general and admin'', SGNA),
     (''Total operating expenses'', OPERATING_EXPENSES),
     (''Operating income'', OPERATING_INCOME),
     (''Interest expense'', INTEREST_EXPENSE),
     (''Income tax expense'', INCOME_TAX),
     (''Net income'', NET_INCOME),
     (''EBITDA'', EBITDA)]"

definition high_value :: "pyfloat option \<Rightarrow> string \<Rightarrow> ExtractedValue" where
  \<comment> \<open>\<^verbatim>\<open>ExtractedValue(value=v, confidence=ConfidenceLevel.HIGH, original_text=line)\<close>\<close>
  "high_value v line = \<lparr>val = v, original_text = Some line, confidence = HIGH, notes' = None\<rparr>"

fun table_line_items ::
  "(string \<times> IncomeStatementItem) list \<Rightarrow> string \<Rightarrow> data_dict \<times> raw_dict \<Rightarrow> error + data_dict \<times> raw_dict" where
  \<comment> \<open>the inner loop over \<^verbatim>\<open>item_mapping.items()\<close> for one stripped line\<close>
  "table_line_items [] line dr = Inr dr"
| "table_line_items ((item_text, standard_item) # rest) line dr =
     (if contains item_text line then
        (case findall_group1 free_number_pattern line of
           n1 # n2 # _ \<Rightarrow>
             (case free_parse_number n1 of
                Inl e \<Rightarrow> Inl e
              | Inr val1 \<Rightarrow>
                 (case free_parse_number n2 of
                    Inl e \<Rightarrow> Inl e
                  | Inr val2 \<Rightarrow>
                     Inr (set_item ''2022'' standard_item (high_value (Some val2) line)
                            (set_item ''2023'' standard_item (high_value (Some val1) line) (fst dr)),
                          set_item ''2022'' (item_value standard_item) line
                            (set_item ''2023'' (item_value standard_item) line (snd dr)))))
         | _ \<Rightarrow> table_line_items rest line dr)
      else table_line_items rest line dr)"

fun extract_table_lines :: "string list \<Rightarrow> data_dict \<times> raw_dict \<Rightarrow> error + data_dict \<times> raw_dict" where
  "extract_table_lines [] dr = Inr dr"
| "extract_table_lines (line0 # ls) dr =
     (let line = strip line0
      in if line = [] \<or> contains ''CONSOLIDATED'' line \<or> contains ''In millions'' line
         then extract_table_lines ls dr
         else (case table_line_items item_mapping line dr of
                 Inl e \<Rightarrow> Inl e
               | Inr dr' \<Rightarrow> extract_table_lines ls dr'))"

definition extract_table_format :: "string list \<Rightarrow> error + data_dict \<times> raw_dict \<times> string list" where
  "extract_table_format lines =
     (case extract_table_lines lines ([(''2023'', []), (''2022'', [])], [(''2023'', []), (''2022'', [])]) of
        Inl e \<Rightarrow> Inl e
      | Inr dr \<Rightarrow> Inr (fst dr, snd dr, []))"

definition key_value_pattern :: regex where
  \<comment> \<open>\<^verbatim>\<open>(\d+\.?\d*)\<close>\<close>
  "key_value_pattern = Group 1 (seqs [plus digit, Opt (Lit CHR ''.''), Star digit])"

definition key_mapping :: "(string \<times> IncomeStatementItem) list" where
  "key_mapping = dict_of [
     (''Revenue'', REVENUE),
     (''Expenses'', OPERATING_EXPENSES),
     (''Net Income'', NET_INCOME)]"

fun extract_key_value_lines :: "string list \<Rightarrow> data_dict \<times> raw_dict \<Rightarrow> error + data_dict \<times> raw_dict" where
  "extract_key_value_lines [] dr = Inr dr"
| "extract_key_value_lines (line # ls) dr =
     (if CHR '':'' \<in> set line then
        (case split_once CHR '':'' line of
           [p0, p1] \<Rightarrow>
             (let key = strip p0; value_str = strip p1
              in case findall_group1 key_value_pattern value_str of
                   [] \<Rightarrow> extract_key_value_lines ls dr
                 | n # _ \<Rightarrow>
                     (case float n of
                        Inl e \<Rightarrow> Inl e
                      | Inr v \<Rightarrow>
                         (case map_of key_mapping key of
                            None \<Rightarrow> extract_key_value_lines ls dr
                          | Some standard_item \<Rightarrow>
                              extract_key_value_lines ls
                                (set_item ''Current'' standard_item (high_value (Some v) line) (fst dr),
                                 set_item ''Current'' (item_value standard_item) line (snd dr)))))
         | _ \<Rightarrow> Inl IndexError)
      else extract_key_value_lines ls dr)"

definition extract_key_value_format :: "string list \<Rightarrow> error + data_dict \<times> raw_dict \<times> string list" where
  "extract_key_value_format lines =
     (case extract_key_value_lines lines ([(''Current'', [])], [(''Current'', [])]) of
        Inl e \<Rightarrow> Inl e
      | Inr dr \<Rightarrow> Inr (fst dr, snd dr, []))"

definition free_extract_line_by_line :: "string list \<Rightarrow> data_dict \<times> raw_dict \<times> string list" where
  "free_extract_line_by_line lines = ([], [], [''Using basic line-by-line extraction''])"

definition try_all_methods :: "string list \<Rightarrow> error + data_dict \<times> raw_dict \<times> string list" where
  "try_all_methods lines =
     (case extract_table_format lines of
        Inl e \<Rightarrow> Inl e
      | Inr t \<Rightarrow>
          if fst t \<noteq> [] \<and> any_values (fst t) then Inr t
          else (case extract_key_value_format lines of
                  Inl e \<Rightarrow> Inl e
                | Inr k \<Rightarrow>
                    if fst k \<noteq> [] \<and> any_values (fst k) then Inr k
                    else Inr (free_extract_line_by_line lines)))"

definition free_detect_currency :: "string \<Rightarrow> Currency" where
  "free_detect_currency text = (if CHR ''$'' \<in> set text then USD else Currency_UNKNOWN)"

definition free_detect_unit :: "string \<Rightarrow> Unit" where
  "free_detect_unit text = (if contains ''millions'' (lower text) then MILLIONS else Unit_UNKNOWN)"

definition free_extract :: "string \<Rightarrow> error + FinancialExtractionResult" where
  \<comment> \<open>\<^verbatim>\<open>FreeExtractor.extract\<close>\<close>
  "free_extract text =
     (let lines = split_on CHR 0x0A text
      in case try_all_methods lines of
           Inl e \<Rightarrow> Inl e
         | Inr (d, raw, ws) \<Rightarrow>
             Inr \<lparr>document_name = ''Free_Extracted'',
                  extraction_date = [],
                  currency = free_detect_currency text,
                  unit = free_detect_unit text,
                  confidence_overall = (if d \<noteq> [] then HIGH else LOW),
                  data = d,
                  warnings = ws,
                  missing_items = compute_missing d,
                  raw_extracts = raw\<rparr>)"

section \<open>The pattern engine (\<^verbatim>\<open>PatternExtractor\<close>)\<close>

subsection \<open>Patterns and metadata\<close>

definition unit_patterns :: "(string \<times> regex) list" where
  \<comment> \<open>the last alternative of the first pattern is \<^verbatim>\<open>000\'s\<close>\<close>
  "unit_patterns = dict_of [
     (''thousands'', alts [lits ''thousand'', lits ''thousands'', lits ''k'',
                           lits (''000'' @ [CHR 0x27] @ ''s'')]),
     (''millions'', alts [lits ''million'', lits ''millions'', lits ''m'', lits ''mn'', lits ''mln'']),
     (''billions'', alts [lits ''billion'', lits ''billions'', lits ''b'', lits ''bn''])]"

definition currency_patterns :: "(string \<times> regex) list" where
  \<comment> \<open>the euro, pound and yen signs are the UTF-8 bytes E2 82 AC, C2 A3 and C2 A5\<close>
  "currency_patterns = dict_of [
     (''USD'', alts [Lit CHR ''$'', seqs [lits ''dollar'', Opt (Lit CHR ''s'')], lits ''usd'']),
     (''EUR'', alts [lits [CHR 0xE2, CHR 0x82, CHR 0xAC], seqs [lits ''euro'', Opt (Lit CHR ''s'')],
                     lits ''eur'']),
     (''GBP'', alts [lits [CHR 0xC2, CHR 0xA3], seqs [lits ''pound'', Opt (Lit CHR ''s'')],
                     lits ''gbp'']),
     (''JPY'', alts [lits [CHR 0xC2, CHR 0xA5], lits ''yen'', lits ''jpy'']),
     (''CNY'', alts [lits [CHR 0xC2, CHR 0xA5], lits ''yuan'', lits ''cny'', lits ''rmb''])]"

definition year_pattern :: regex where
  \<comment> \<open>\<^verbatim>\<open>20\d{2}|19\d{2}\<close>\<close>
  "year_pattern = Alt (seqs [Lit CHR ''2'', Lit CHR ''0'', digit, digit])
                      (seqs [Lit CHR ''1'', Lit CHR ''9'', digit, digit])"

definition Currency_of :: "string \<Rightarrow> error + Currency" where
  \<comment> \<open>the enum call \<^verbatim>\<open>Currency(name)\<close>\<close>
  "Currency_of name =
     (case map_of [(''USD'', USD), (''EUR'', EUR), (''GBP'', GBP), (''JPY'', JPY), (''CNY'', CNY),
                   (''UNKNOWN'', Currency_UNKNOWN)] name of
        Some c \<Rightarrow> Inr c
      | None \<Rightarrow> Inl ValueError)"

definition Unit_of :: "string \<Rightarrow> error + Unit" where
  \<comment> \<open>the enum call \<^verbatim>\<open>Unit(name)\<close>\<close>
  "Unit_of name =
     (case map_of [(''thousands'', THOUSANDS), (''millions'', MILLIONS), (''billions'', BILLIONS),
                   (''actual'', ACTUAL), (''UNKNOWN'', Unit_UNKNOWN)] name of
        Some u \<Rightarrow> Inr u
      | None \<Rightarrow> Inl ValueError)"

fun first_pattern :: "(string \<times> regex) list \<Rightarrow> string \<Rightarrow> string option" where
  \<comment> \<open>the loop \<^verbatim>\<open>for name, pattern in patterns.items(): if re.search(pattern, text_lower)\<close>\<close>
  "first_pattern [] text_lower = None"
| "first_pattern ((name, pattern) # rest) text_lower =
     (if re_search False pattern text_lower \<noteq> None then Some name
      else first_pattern rest text_lower)"

definition detect_currency :: "string \<Rightarrow> error + Currency" where
  "detect_currency text =
     (case first_pattern currency_patterns (lower text) of
        Some name \<Rightarrow> Currency_of name
      | None \<Rightarrow> Inr Currency_UNKNOWN)"

definition detect_unit :: "string \<Rightarrow> error + Unit" where
  "detect_unit text =
     (case first_pattern unit_patterns (lower text) of
        Some name \<Rightarrow> Unit_of name
      | None \<Rightarrow> Inr Unit_UNKNOWN)"

subsection \<open>Years\<close>

definition year_pair_pattern :: regex where
  \<comment> \<open>\<^verbatim>\<open>(20\d{2})\s+(20\d{2})\<close>\<close>
  "year_pair_pattern =
     seqs [Group 1 (seqs [Lit CHR ''2'', Lit CHR ''0'', digit, digit]),
           plus space,
           Group 2 (seqs [Lit CHR ''2'', Lit CHR ''0'', digit, digit])]"

fun extract_years_from_table :: "string list \<Rightarrow> string list" where
  "extract_years_from_table [] = []"
| "extract_years_from_table (line # ls) =
     (case re_search False year_pair_pattern line of
        Some m \<Rightarrow> [group m 1, group m 2]
      | None \<Rightarrow> extract_years_from_table ls)"

definition extract_years :: "string \<Rightarrow> string list" where
  \<comment> \<open>\<^verbatim>\<open>sorted(list(set(re.findall(year_pattern, text))))\<close>\<close>
  "extract_years text = sort (remdups (findall_whole year_pattern text))"

definition is_recent_year :: "string \<Rightarrow> bool" where
  "is_recent_year text =
     (\<exists>y \<in> set (findall_whole year_pattern text). 2020 \<le> nat_of_digits y \<and> nat_of_digits y \<le> 2025)"

subsection \<open>Table strategy\<close>

definition pattern_number :: regex where
  \<comment> \<open>\<^verbatim>\<open>\d{1,3}(?:[,\s]\d{3})*(?:\.\d{2})?\<close>\<close>
  "pattern_number =
     seqs [digits1_3,
           Star (seqs [CSet [CChar CHR '','', CSpace], digits3]),
           Opt (seqs [Lit CHR ''.'', digit, digit])]"

definition row_tail :: "regex list" where
  \<comment> \<open>\<^verbatim>\<open>([A-Za-z\s,]+?)\s+\$?(NUMBER)\s+\$?(NUMBER)$\<close>\<close>
  "row_tail =
     [Group 1 (lazy_plus (CSet [CRange CHR ''A'' CHR ''Z'', CRange CHR ''a'' CHR ''z'', CSpace,
                                CChar CHR '',''])),
      plus space, Opt (Lit CHR ''$''), Group 2 pattern_number,
      plus space, Opt (Lit CHR ''$''), Group 3 pattern_number, Eol]"

definition table_row_pattern :: regex where
  "table_row_pattern = seqs (Bol # row_tail)"

definition table_row_pattern_indented :: regex where
  "table_row_pattern_indented = seqs (Bol # plus space # row_tail)"

fun find_table_start :: "string list \<Rightarrow> string list \<Rightarrow> nat \<Rightarrow> nat" where
  \<comment> \<open>the index after the first line that contains every year, 0 if there is none\<close>
  "find_table_start [] years i = 0"
| "find_table_start (line # ls) years i =
     (if (\<forall>year \<in> set years. contains year line) then Suc i
      else find_table_start ls years (Suc i))"

definition header_words :: "string list" where
  "header_words = [''consolidated'', ''statement'', ''in millions'', ''except per share'']"

definition table_row :: "string \<Rightarrow> string \<Rightarrow> string \<Rightarrow> data_dict \<times> raw_dict \<Rightarrow> error + data_dict \<times> raw_dict" where
  \<comment> \<open>one pass of the loop over the lines after the header; \<open>y0\<close>, \<open>y1\<close> are
     \<^verbatim>\<open>years[0]\<close>, \<^verbatim>\<open>years[1]\<close>\<close>
  "table_row line0 y0 y1 dr =
     (let line = strip line0
      in if line = [] \<or> length line < 5 then Inr dr
         else if (\<exists>x \<in> set header_words. contains x (lower line)) then Inr dr
         else
           (case (case re_search False table_row_pattern line of
                    Some m \<Rightarrow> Some m
                  | None \<Rightarrow> re_search False table_row_pattern_indented line) of
              None \<Rightarrow> Inr dr
            | Some m \<Rightarrow>
                (let item_name = strip (group m 1)
                 in case parse_number (group m 2) of
                      Inl e \<Rightarrow> Inl e
                    | Inr val1 \<Rightarrow>
                       (case parse_number (group m 3) of
                          Inl e \<Rightarrow> Inl e
                        | Inr val2 \<Rightarrow>
                           (case normalize_line_item item_name of
                              None \<Rightarrow> Inr dr
                            | Some standard_item \<Rightarrow>
                                Inr (set_item y0 standard_item (high_value val2 line)
                                       (set_item y1 standard_item (high_value val1 line) (fst dr)),
                                     set_item y0 (item_value standard_item) line
                                       (set_item y1 (item_value standard_item) line (snd dr))))))))"

fun table_rows :: "string list \<Rightarrow> string \<Rightarrow> string \<Rightarrow> data_dict \<times> raw_dict \<Rightarrow> error + data_dict \<times> raw_dict" where
  "table_rows [] y0 y1 dr = Inr dr"
| "table_rows (line0 # ls) y0 y1 dr =
     (case table_row line0 y0 y1 dr of
        Inl e \<Rightarrow> Inl e
      | Inr dr' \<Rightarrow> table_rows ls y0 y1 dr')"

definition extract_from_table :: "string list \<Rightarrow> string list \<Rightarrow> error + data_dict \<times> raw_dict \<times> string list" where
  "extract_from_table lines years =
     (case years of
        y0 # y1 # _ \<Rightarrow>
          (case table_rows (drop (find_table_start lines years 0) lines) y0 y1
                  (dict_of (map (\<lambda>year. (year, [])) years), dict_of (map (\<lambda>year. (year, [])) years)) of
             Inl e \<Rightarrow> Inl e
           | Inr dr \<Rightarrow> Inr (fst dr, snd dr, []))
      | _ \<Rightarrow> Inr ([], [], [''No years found in table'']))"

subsection \<open>Context-window strategy\<close>

definition join_lines :: "string list \<Rightarrow> string" where
  \<comment> \<open>\<^verbatim>\<open>'\n'.join(ls)\<close>\<close>
  "join_lines ls = (case ls of [] \<Rightarrow> [] | l # rest \<Rightarrow> foldl (\<lambda>acc x. acc @ [CHR 0x0A] @ x) l rest)"

definition slice :: "'a list \<Rightarrow> nat \<Rightarrow> nat \<Rightarrow> 'a list" where
  \<comment> \<open>\<^verbatim>\<open>xs[a:b]\<close> for \<open>0 \<le> a\<close> and \<open>b \<le> len(xs)\<close>\<close>
  "slice xs a b = take (b - a) (drop a xs)"

fun year_windows :: "string list \<Rightarrow> string list \<Rightarrow> string \<Rightarrow> nat \<Rightarrow> string list" where
  \<comment> \<open>the loop of \<^verbatim>\<open>_get_year_context\<close>: the first argument is what is left of
     \<^verbatim>\<open>lines\<close> from index \<open>i\<close> on, the second all of it\<close>
  "year_windows [] lines year i = []"
| "year_windows (line # ls) lines year i =
     (if contains year line
      then slice lines (i - 5) (min (length lines) (i + 5 + 1)) @ year_windows ls lines year (Suc i)
      else year_windows ls lines year (Suc i))"

definition get_year_context :: "string \<Rightarrow> string \<Rightarrow> string" where
  "get_year_context text year =
     (let lines = split_on CHR 0x0A text in join_lines (year_windows lines lines year 0))"

fun get_item_variations :: "IncomeStatementItem \<Rightarrow> string list" where
  "get_item_variations REVENUE = [''revenue'', ''sales'', ''total revenue'', ''operating revenue'']"
| "get_item_variations COST_OF_REVENUE =
     [''cost of revenue'', ''cost of sales'', ''cost of goods sold'', ''cogs'']"
| "get_item_variations GROSS_PROFIT = [''gross profit'', ''gross margin'']"
| "get_item_variations OPERATING_EXPENSES =
     [''operating expenses'', ''opex'', ''operating costs'', ''total operating expenses'', ''expenses'']"
| "get_item_variations RND =
     [''research and development'', ''r&d'', ''research & development'',
      ''research and development expenses'']"
| "get_item_variations SGNA =
     [''selling, general and administrative'', ''sg&a'', ''selling, general & administrative'',
      ''selling general and admin'', ''selling general and administrative'']"
| "get_item_variations OPERATING_INCOME =
     [''operating income'', ''operating profit'', ''income from operations'']"
| "get_item_variations INTEREST_EXPENSE = [''interest expense'', ''interest'', ''finance costs'']"
| "get_item_variations INCOME_TAX =
     [''income tax'', ''tax expense'', ''provision for income taxes'', ''income tax expense'']"
| "get_item_variations NET_INCOME = [''net income'', ''net profit'', ''net earnings'', ''bottom line'']"
| "get_item_variations EBITDA = [''ebitda'', ''earnings before interest'']"

definition line_item_pattern :: "string \<Rightarrow> regex" where
  \<comment> \<open>\<^verbatim>\<open>rf'{variation}.*?(NUMBER)'\<close>; no variation contains a regex metacharacter\<close>
  "line_item_pattern variation = seqs [lits variation, LazyStar Dot, Group 1 pattern_number]"

fun try_variations ::
  "string list \<Rightarrow> string \<Rightarrow> string \<Rightarrow> error + pyfloat option \<times> ConfidenceLevel \<times> string option" where
  \<comment> \<open>the loop of \<^verbatim>\<open>_extract_line_item\<close>\<close>
  "try_variations [] context year = Inr (None, MISSING, None)"
| "try_variations (variation # rest) context year =
     (case re_search True (line_item_pattern variation) context of
        None \<Rightarrow> try_variations rest context year
      | Some m \<Rightarrow>
          (case parse_number (group m 1) of
             Inl e \<Rightarrow> Inl e
           | Inr v \<Rightarrow>
               (let surrounding_text =
                      slice context (fst m - 50) (min (length context) (fst (snd m) + 50))
                in if contains year surrounding_text \<or> is_recent_year surrounding_text
                   then Inr (v, HIGH, Some (slice context (fst m) (fst (snd m))))
                   else try_variations rest context year)))"

definition extract_line_item ::
  "string \<Rightarrow> IncomeStatementItem \<Rightarrow> string \<Rightarrow> error + pyfloat option \<times> ConfidenceLevel \<times> string option" where
  "extract_line_item context item year = try_variations (get_item_variations item) context year"

fun extract_items_for_year ::
  "IncomeStatementItem list \<Rightarrow> string \<Rightarrow> string \<Rightarrow> period_data \<times> (string \<times> string) list
     \<Rightarrow> error + period_data \<times> (string \<times> string) list" where
  \<comment> \<open>the loop \<^verbatim>\<open>for item in IncomeStatementItem\<close> of \<^verbatim>\<open>_extract_for_year\<close>\<close>
  "extract_items_for_year [] context year dr = Inr dr"
| "extract_items_for_year (item # rest) context year dr =
     (case extract_line_item context item year of
        Inl e \<Rightarrow> Inl e
      | Inr (v, c, original) \<Rightarrow>
          (case v of
             None \<Rightarrow> extract_items_for_year rest context year dr
           | Some x \<Rightarrow>
               extract_items_for_year rest context year
                 (AList.update item \<lparr>val = Some x, original_text = original, confidence = c,
                                       notes' = None\<rparr> (fst dr),
                  AList.update (item_value item) (case original of Some t \<Rightarrow> t | None \<Rightarrow> []) (snd dr))))"

definition extract_for_year :: "string \<Rightarrow> string \<Rightarrow> error + period_data \<times> (string \<times> string) list" where
  "extract_for_year text year =
     extract_items_for_year all_items (get_year_context text year) year ([], [])"

fun line_by_line_years :: "string list \<Rightarrow> string \<Rightarrow> data_dict \<times> raw_dict \<Rightarrow> error + data_dict \<times> raw_dict" where
  "line_by_line_years [] text dr = Inr dr"
| "line_by_line_years (year # rest) text dr =
     (case extract_for_year text year of
        Inl e \<Rightarrow> Inl e
      | Inr yd \<Rightarrow>
          if fst yd \<noteq> []
          then line_by_line_years rest text
                 (AList.update year (fst yd) (fst dr), AList.update year (snd yd) (snd dr))
          else line_by_line_years rest text dr)"

definition extract_line_by_line :: "string \<Rightarrow> string list \<Rightarrow> error + data_dict \<times> raw_dict \<times> string list" where
  "extract_line_by_line text years =
     (case line_by_line_years years text ([], []) of
        Inl e \<Rightarrow> Inl e
      | Inr dr \<Rightarrow> Inr (fst dr, snd dr, []))"

subsection \<open>Simple key-value strategy\<close>

fun simple_key_value_lines :: "string list \<Rightarrow> data_dict \<times> raw_dict \<Rightarrow> error + data_dict \<times> raw_dict" where
  "simple_key_value_lines [] dr = Inr dr"
| "simple_key_value_lines (line0 # ls) dr =
     (let line = strip line0
      in if line = [] \<or> CHR '':'' \<notin> set line then simple_key_value_lines ls dr
         else
           (case split_once CHR '':'' line of
              [p0, p1] \<Rightarrow>
                (let key = strip p0; value_str = strip p1;
                     value_str_clean = filter (\<lambda>c. isdigit c \<or> c = CHR ''.'' \<or> c = CHR ''-'') value_str
                 in if value_str_clean = [] then simple_key_value_lines ls dr
                    else
                      (case float value_str_clean of
                         Inl ValueError \<Rightarrow> simple_key_value_lines ls dr
                       | Inl e \<Rightarrow> Inl e
                       | Inr v \<Rightarrow>
                          (case normalize_line_item key of
                             Some standard_item \<Rightarrow>
                               simple_key_value_lines ls
                                 (set_item ''Current'' standard_item (high_value (Some v) line) (fst dr),
                                  set_item ''Current'' (item_value standard_item) line (snd dr))
                           | None \<Rightarrow> simple_key_value_lines ls dr)))
            | _ \<Rightarrow> simple_key_value_lines ls dr))"

definition extract_simple_key_value :: "string list \<Rightarrow> error + data_dict \<times> raw_dict \<times> string list" where
  "extract_simple_key_value lines =
     (case simple_key_value_lines lines ([(''Current'', [])], [(''Current'', [])]) of
        Inl e \<Rightarrow> Inl e
      | Inr dr \<Rightarrow> Inr (fst dr, snd dr, []))"

subsection \<open>\<^verbatim>\<open>PatternExtractor.extract\<close>\<close>

definition no_data_for :: "data_dict \<Rightarrow> string list \<Rightarrow> bool" where
  \<comment> \<open>\<^verbatim>\<open>not data or all(len(data.get(year, {})) == 0 for year in years)\<close>\<close>
  "no_data_for d years = (d = [] \<or> (\<forall>year \<in> set years. length (get_or_empty d year) = 0))"

definition join_comma :: "string list \<Rightarrow> string" where
  \<comment> \<open>\<^verbatim>\<open>', '.join(ls)\<close>\<close>
  "join_comma ls = (case ls of [] \<Rightarrow> [] | l # rest \<Rightarrow> foldl (\<lambda>acc x. acc @ '', '' @ x) l rest)"

definition assemble ::
  "Currency \<Rightarrow> Unit \<Rightarrow> data_dict \<times> raw_dict \<times> string list \<Rightarrow> FinancialExtractionResult" where
  \<comment> \<open>the end of \<^verbatim>\<open>extract\<close>, from \<^verbatim>\<open># Determine missing items\<close> on\<close>
  "assemble cur un drw =
     (case drw of (d, raw, ws) \<Rightarrow>
        (let missing = compute_missing d;
             ws' = (if missing \<noteq> []
                    then ws @ [''Missing items: '' @ join_comma (map item_value missing)] else ws)
         in \<lparr>document_name = ''Pattern_Extracted'',
              extraction_date = [],
              currency = cur,
              unit = un,
              confidence_overall = (if d \<noteq> [] then MEDIUM else LOW),
              data = d,
              warnings = ws',
              missing_items = missing,
              raw_extracts = raw\<rparr>))"

definition detect_years :: "string \<Rightarrow> string list" where
  \<comment> \<open>the first lines of \<^verbatim>\<open>extract\<close>: the header years, else every year of the text\<close>
  "detect_years text =
     (let years = extract_years_from_table (split_on CHR 0x0A text)
      in if years = [] then extract_years text else years)"

definition with_years :: "string \<Rightarrow> string list \<Rightarrow> error + data_dict \<times> raw_dict \<times> string list" where
  \<comment> \<open>the block under \<^verbatim>\<open>if years and len(years) >= 2\<close>; without it the three results
     stay empty\<close>
  "with_years text years =
     (if years \<noteq> [] \<and> 2 \<le> length years then
        (case extract_from_table (split_on CHR 0x0A text) years of
           Inl e \<Rightarrow> Inl e
         | Inr t \<Rightarrow> if no_data_for (fst t) years then extract_line_by_line text years else Inr t)
      else Inr ([], [], []))"

definition pattern_extract :: "string \<Rightarrow> error + FinancialExtractionResult" where
  "pattern_extract text =
     (let lines = split_on CHR 0x0A text; years = detect_years text
      in case detect_currency text of
           Inl e \<Rightarrow> Inl e
         | Inr cur \<Rightarrow>
            (case detect_unit text of
               Inl e \<Rightarrow> Inl e
             | Inr un \<Rightarrow>
                (case with_years text years of
                   Inl e \<Rightarrow> Inl e
                 | Inr t \<Rightarrow>
                     if no_data_for (fst t) (if years \<noteq> [] then years else [''Current''])
                     then (case extract_simple_key_value lines of
                             Inl e \<Rightarrow> Inl e
                           | Inr k \<Rightarrow> Inr (assemble cur un k))
                     else Inr (assemble cur un t))))"

section \<open>The pipeline (\<^verbatim>\<open>DocumentProcessor._extract_financial_data\<close>)\<close>

definition stamp :: "string \<Rightarrow> string \<Rightarrow> FinancialExtractionResult \<Rightarrow> FinancialExtractionResult" where
  \<comment> \<open>the two assignments after each \<^verbatim>\<open>extract\<close>; \<open>now\<close> is \<^verbatim>\<open>datetime.now().isoformat()\<close>\<close>
  "stamp filename now result = result\<lparr>document_name := filename, extraction_date := now\<rparr>"

definition extract_financial_data :: "string \<Rightarrow> string \<Rightarrow> string \<Rightarrow> error + FinancialExtractionResult" where
  \<comment> \<open>the \<^verbatim>\<open>try\<close> block returns the default engine's result when it holds data; any
     exception in it is caught and the pattern engine runs\<close>
  "extract_financial_data text filename now =
     (case (case free_extract text of
              Inl e \<Rightarrow> None
            | Inr result \<Rightarrow>
                if data (stamp filename now result) \<noteq> [] \<and> any_values (data (stamp filename now result))
                then Some (stamp filename now result) else None) of
        Some result \<Rightarrow> Inr result
      | None \<Rightarrow>
          (case pattern_extract text of
             Inl e \<Rightarrow> Inl e
           | Inr result \<Rightarrow> Inr (stamp filename now result)))"

section \<open>Evaluation rules\<close>

lemmas string_eval =
  lower_def lower_char_def strip_def isspace_def startswith_def endswith_def replace_char_def

lemmas float_eval =
  float_def float_space_def parse_unsigned_def parse_decimal_def parse_exponent_def
  isdigit_def nat_of_digits_def digit_val_def

lemmas number_eval = parse_number_def parse_number_try_def free_parse_number_def

section \<open>The builtin float() raises nothing but ValueError\<close>

lemma str_index_error: "str_index c s i = Inl e \<Longrightarrow> e = ValueError"
  by (induction s arbitrary: i) (auto split: if_splits)

lemma parse_decimal_error: "parse_decimal s = Inl e \<Longrightarrow> e = ValueError"
  by (auto simp: parse_decimal_def Let_def split: if_splits prod.splits)

lemma parse_unsigned_error: "parse_unsigned s b = Inl e \<Longrightarrow> e = ValueError"
  by (auto simp: parse_unsigned_def split: if_splits sum.splits dest: parse_decimal_error)

lemma float_error: "float s = Inl e \<Longrightarrow> e = ValueError"
  by (auto simp: float_def Let_def split: if_splits list.splits dest: parse_unsigned_error)

lemma parse_number_try_error: "parse_number_try s = Inl e \<Longrightarrow> e = ValueError"
  unfolding parse_number_try_def Let_def
  by (auto split: if_splits sum.splits dest: float_error str_index_error)

lemma parse_number_total: "\<exists>r. parse_number s = Inr r"
proof (cases "parse_number_try s")
  case (Inl e)
  then have "e = ValueError" by (rule parse_number_try_error)
  with Inl show ?thesis by (simp add: parse_number_def)
next
  case (Inr v)
  then show ?thesis by (simp add: parse_number_def)
qed

section \<open>Claims about the number parsers\<close>

lemma parse_number_paren: "parse_number ''(1,234)'' = Inr (Some (Fin (- 1234)))"
  by (simp add: number_eval float_eval string_eval)

lemma parse_number_abc: "parse_number ''abc'' = Inr None"
  by (simp add: number_eval float_eval string_eval)

lemma parse_number_empty: "parse_number [] = Inr None"
  by (simp add: number_eval float_eval string_eval)

lemma free_parse_number_paren: "free_parse_number ''(1,234)'' = Inl ValueError"
  by (simp add: number_eval float_eval string_eval)

lemma free_parse_number_empty: "free_parse_number [] = Inl ValueError"
  by (simp add: number_eval float_eval string_eval)

text \<open>
  Claim C4. The claim says that the number parser maps the European token
  \<^verbatim>\<open>1.234,56\<close> to 1234.56. \<^verbatim>\<open>PatternExtractor._parse_number\<close> removes every comma in
  its first statement, so the test \<^verbatim>\<open>',' in number_str\<close> of the European branch never
  holds and the token is read as \<^verbatim>\<open>1.23456\<close>: the parser returns 1.23456, not 1234.56.
\<close>

theorem C4_european_token_misparsed:
  "parse_number ''1.234,56'' = Inr (Some (Fin 1.23456)) \<and>
   parse_number ''1.234,56'' \<noteq> Inr (Some (Fin 1234.56))"
  by (simp add: number_eval float_eval string_eval)

text \<open>
  Claim C5, as stated, covers both number parsers. \<^verbatim>\<open>FreeExtractor._parse_number\<close> has
  no handler: on \<^verbatim>\<open>abc\<close> the ValueError of float() reaches its caller.
\<close>

theorem C5_free_parser_raises: "free_parse_number ''abc'' = Inl ValueError"
  by (simp add: number_eval float_eval string_eval)

text \<open>
  Claim C5, amended. For every input string \<^verbatim>\<open>PatternExtractor._parse_number\<close> returns a
  float or null and never raises; it returns -1234.0 for \<^verbatim>\<open>(1,234)\<close> and null for
  \<^verbatim>\<open>abc\<close> and for the empty string. \<^verbatim>\<open>FreeExtractor._parse_number\<close> has no fail-soft
  path: it raises ValueError for \<^verbatim>\<open>(1,234)\<close> and for the empty string.
\<close>

theorem C5_pattern_parser_fail_soft:
  "(\<exists>r. parse_number s = Inr r) \<and>
   parse_number ''(1,234)'' = Inr (Some (Fin (- 1234))) \<and>
   parse_number ''abc'' = Inr None \<and>
   parse_number [] = Inr None \<and>
   free_parse_number ''(1,234)'' = Inl ValueError \<and>
   free_parse_number [] = Inl ValueError"
  using parse_number_total [of s] parse_number_paren parse_number_abc parse_number_empty
    free_parse_number_paren free_parse_number_empty
  by blast

end
